theory Spec2Isabelle
  imports Complex_Main
begin

section \<open>Data model\<close>

text \<open>
  JavaScript numbers as far as the program compares them: a finite number, the two
  infinities and NaN. Comparison of two doubles involves no rounding, so the finite
  numbers are modelled as reals (both zeros are \<open>JNum 0\<close>).
\<close>

datatype jsnum = JNum real | PosInf | NegInf | NaN

text \<open>
  A transaction as the submit handler builds it:
  \<^verbatim>\<open>{ id, description, amount, type, category, date }\<close>.
  The fields \<open>id\<close> and \<open>type\<close> are named \<open>tx_id\<close> and \<open>tx_type\<close> here.
\<close>

record transaction =
  tx_id :: string
  description :: string
  amount :: jsnum
  tx_type :: string
  category :: string
  date :: string

text \<open>
  A value that is either a transaction object or \<open>undefined\<close> (\<open>None\<close>):
  \<open>Array.prototype.find\<close> returns \<open>undefined\<close> when nothing matches, the reducer stores
  that value in the history, and undo passes it on as the payload of ADD_TRANSACTION.
\<close>

type_synonym tx_value = "transaction option"

datatype history_kind = ADD | DELETE

text \<open>A history entry \<^verbatim>\<open>{ type: 'ADD' | 'DELETE', data: ... }\<close>.\<close>

record history_entry =
  h_type :: history_kind
  h_data :: tx_value

text \<open>
  The filters object. \<open>minPrice\<close> and \<open>maxPrice\<close> are absent from the default state of
  the module version of the store (\<open>None\<close>: the property reads as \<open>undefined\<close>).
\<close>

record filter_state =
  search :: string
  f_category :: string
  dateRange :: string
  minPrice :: "jsnum option"
  maxPrice :: "jsnum option"

text \<open>
  The payload of SET_FILTER: an object holding some of the filter's keys. \<open>None\<close> is a
  key the payload does not have.
\<close>

record filter_patch =
  p_search :: "string option"
  p_category :: "string option"
  p_dateRange :: "string option"
  p_minPrice :: "jsnum option option"
  p_maxPrice :: "jsnum option option"

record app_state =
  transactions :: "tx_value list"
  history :: "history_entry list"
  theme :: string
  currency :: string
  filters :: filter_state
  persist :: bool

text \<open>
  An action \<^verbatim>\<open>{ type, payload }\<close>. \<open>OTHER\<close> is an action whose type is none of the
  five strings the reducers switch on.
\<close>

datatype action =
    ADD_TRANSACTION tx_value
  | DELETE_TRANSACTION string
  | SET_THEME string
  | SET_CURRENCY string
  | SET_FILTER filter_patch
  | OTHER string

text \<open>Reading a property of \<open>undefined\<close> throws a TypeError.\<close>

datatype js_error = TypeError

section \<open>The reducers\<close>

text \<open>
  \<open>Array.prototype.find\<close> with a callback that reads a property of the element
  (\<^verbatim>\<open>t => t.id === action.payload\<close>): the first element that satisfies it,
  \<open>undefined\<close> when there is none. Reading the property throws on an \<open>undefined\<close>
  element met before a match.
\<close>

fun js_find :: "(transaction \<Rightarrow> bool) \<Rightarrow> tx_value list \<Rightarrow> js_error + tx_value" where
  "js_find p [] = Inr None"
| "js_find p (None # ts) = Inl TypeError"
| "js_find p (Some t # ts) = (if p t then Inr (Some t) else js_find p ts)"

text \<open>
  \<open>Array.prototype.filter\<close> with such a callback
  (\<^verbatim>\<open>t => t.id !== action.payload\<close>): the callback runs on every element, from the
  left.
\<close>

fun js_filter :: "(transaction \<Rightarrow> bool) \<Rightarrow> tx_value list \<Rightarrow> js_error + tx_value list" where
  "js_filter p [] = Inr []"
| "js_filter p (None # ts) = Inl TypeError"
| "js_filter p (Some t # ts) =
     (case js_filter p ts of
        Inl e \<Rightarrow> Inl e
      | Inr kept \<Rightarrow> Inr (if p t then Some t # kept else kept))"

text \<open>\<^verbatim>\<open>{ ...state.filters, ...action.payload }\<close>: the payload's keys override.\<close>

definition merge_filters :: "filter_state \<Rightarrow> filter_patch \<Rightarrow> filter_state" where
  "merge_filters f p =
     \<lparr> search = (case p_search p of None \<Rightarrow> search f | Some v \<Rightarrow> v),
       f_category = (case p_category p of None \<Rightarrow> f_category f | Some v \<Rightarrow> v),
       dateRange = (case p_dateRange p of None \<Rightarrow> dateRange f | Some v \<Rightarrow> v),
       minPrice = (case p_minPrice p of None \<Rightarrow> minPrice f | Some v \<Rightarrow> v),
       maxPrice = (case p_maxPrice p of None \<Rightarrow> maxPrice f | Some v \<Rightarrow> v) \<rparr>"

text \<open>
  \<open>expenseReducer\<close> of the store module (the reducer \<open>js/app.js\<close> imports).
  \<open>.slice(0, 50)\<close> is \<open>take 50\<close>.
\<close>

fun expenseReducer :: "app_state \<Rightarrow> action \<Rightarrow> js_error + app_state" where
  "expenseReducer state (ADD_TRANSACTION payload) =
     Inr (state\<lparr> transactions := payload # transactions state,
                 history := take 50 (\<lparr> h_type = ADD, h_data = payload \<rparr> # history state) \<rparr>)"
| "expenseReducer state (DELETE_TRANSACTION payload) =
     (case js_find (\<lambda>t. tx_id t = payload) (transactions state) of
        Inl e \<Rightarrow> Inl e
      | Inr deletedItem \<Rightarrow>
          (case js_filter (\<lambda>t. tx_id t \<noteq> payload) (transactions state) of
             Inl e \<Rightarrow> Inl e
           | Inr kept \<Rightarrow>
               Inr (state\<lparr> transactions := kept,
                           history := take 50 (\<lparr> h_type = DELETE, h_data = deletedItem \<rparr> # history state) \<rparr>)))"
| "expenseReducer state (SET_THEME payload) = Inr (state\<lparr> theme := payload \<rparr>)"
| "expenseReducer state (SET_CURRENCY payload) = Inr (state\<lparr> currency := payload \<rparr>)"
| "expenseReducer state (SET_FILTER payload) =
     Inr (state\<lparr> filters := merge_filters (filters state) payload \<rparr>)"
| "expenseReducer state (OTHER ty) = Inr state"

text \<open>
  \<open>expenseReducer\<close> of \<open>js/main.js\<close>, the combined script: the same switch without a
  case for SET_CURRENCY, which therefore takes the default branch.
\<close>

fun expenseReducer_main :: "app_state \<Rightarrow> action \<Rightarrow> js_error + app_state" where
  "expenseReducer_main state (ADD_TRANSACTION payload) =
     Inr (state\<lparr> transactions := payload # transactions state,
                 history := take 50 (\<lparr> h_type = ADD, h_data = payload \<rparr> # history state) \<rparr>)"
| "expenseReducer_main state (DELETE_TRANSACTION payload) =
     (case js_find (\<lambda>t. tx_id t = payload) (transactions state) of
        Inl e \<Rightarrow> Inl e
      | Inr deletedItem \<Rightarrow>
          (case js_filter (\<lambda>t. tx_id t \<noteq> payload) (transactions state) of
             Inl e \<Rightarrow> Inl e
           | Inr kept \<Rightarrow>
               Inr (state\<lparr> transactions := kept,
                           history := take 50 (\<lparr> h_type = DELETE, h_data = deletedItem \<rparr> # history state) \<rparr>)))"
| "expenseReducer_main state (SET_THEME payload) = Inr (state\<lparr> theme := payload \<rparr>)"
| "expenseReducer_main state (SET_FILTER payload) =
     Inr (state\<lparr> filters := merge_filters (filters state) payload \<rparr>)"
| "expenseReducer_main state (SET_CURRENCY payload) = Inr state"
| "expenseReducer_main state (OTHER ty) = Inr state"

text \<open>
  \<open>initialState = savedState || { ... }\<close>: the saved state when local storage holds one,
  the literal otherwise. The two scripts differ in the literal's filters.
\<close>

definition initialState :: "app_state option \<Rightarrow> app_state" where
  "initialState savedState =
     (case savedState of
        Some s \<Rightarrow> s
      | None \<Rightarrow>
          \<lparr> transactions = [], history = [], theme = ''dark'', currency = ''USD'',
            filters = \<lparr> search = '''', f_category = ''all'', dateRange = ''all'',
                        minPrice = None, maxPrice = None \<rparr>,
            persist = True \<rparr>)"

definition initialState_main :: "app_state option \<Rightarrow> app_state" where
  "initialState_main savedState =
     (case savedState of
        Some s \<Rightarrow> s
      | None \<Rightarrow>
          \<lparr> transactions = [], history = [], theme = ''dark'', currency = ''USD'',
            filters = \<lparr> search = '''', f_category = ''all'', dateRange = ''all'',
                        minPrice = Some (JNum 0), maxPrice = Some PosInf \<rparr>,
            persist = True \<rparr>)"

section \<open>The store\<close>

text \<open>
  \<open>dispatch\<close> assigns \<open>state = reducer(state, action)\<close>. When the reducer throws, the
  assignment does not happen and the store keeps its state. The listeners' calls and the
  write to local storage do not change the store's state and are not modelled.
\<close>

definition dispatch ::
  "(app_state \<Rightarrow> action \<Rightarrow> js_error + app_state) \<Rightarrow> app_state \<Rightarrow> action \<Rightarrow> app_state" where
  "dispatch reducer state a = (case reducer state a of Inl e \<Rightarrow> state | Inr state' \<Rightarrow> state')"

text \<open>The store's state after a sequence of dispatches.\<close>

definition dispatch_all ::
  "(app_state \<Rightarrow> action \<Rightarrow> js_error + app_state) \<Rightarrow> app_state \<Rightarrow> action list \<Rightarrow> app_state" where
  "dispatch_all reducer state acts = foldl (dispatch reducer) state acts"

text \<open>
  The listeners array. A listener is a function object, which \<open>indexOf\<close> compares by
  identity; the model keeps a token per function object.

  \<open>Array.prototype.indexOf\<close>: the first index of the element, \<open>-1\<close> when it is absent.
\<close>

fun indexOf :: "'a list \<Rightarrow> 'a \<Rightarrow> int" where
  "indexOf [] x = - 1"
| "indexOf (y # ys) x =
     (if y = x then 0 else (let r = indexOf ys x in if r < 0 then - 1 else r + 1))"

text \<open>
  \<open>Array.prototype.splice(start, deleteCount)\<close>, the array it leaves: a negative start
  counts from the end (\<open>max (len + start) 0\<close>), a start past the end is the length, and
  the count is clamped to what is left.
\<close>

definition splice :: "'a list \<Rightarrow> int \<Rightarrow> int \<Rightarrow> 'a list" where
  "splice xs start deleteCount =
     (let len = int (length xs);
          actualStart = (if start < 0 then max (len + start) 0 else min start len);
          actualDeleteCount = min (max deleteCount 0) (len - actualStart)
      in take (nat actualStart) xs @ drop (nat (actualStart + actualDeleteCount)) xs)"

text \<open>\<open>subscribe\<close> pushes the listener; the array after the call.\<close>

definition subscribe :: "'a list \<Rightarrow> 'a \<Rightarrow> 'a list" where
  "subscribe listeners listener = listeners @ [listener]"

text \<open>
  The function \<open>subscribe(listener)\<close> returns, called on the listeners array as it is at
  that moment:
  \<^verbatim>\<open>const index = listeners.indexOf(listener); listeners.splice(index, 1);\<close>
\<close>

definition unsubscribe :: "'a list \<Rightarrow> 'a \<Rightarrow> 'a list" where
  "unsubscribe listeners listener =
     (let index = indexOf listeners listener in splice listeners index 1)"

section \<open>Undo\<close>

text \<open>
  \<open>window.undoLastAction\<close>, as the store's state after the call or the error thrown (the
  store then keeps its state). \<open>lastAction.data.id\<close> throws when the entry's data is
  \<open>undefined\<close>. The two scripts have the same function, each over its own reducer.
\<close>

definition undoLastAction ::
  "(app_state \<Rightarrow> action \<Rightarrow> js_error + app_state) \<Rightarrow> app_state \<Rightarrow> js_error + app_state" where
  "undoLastAction reducer state =
     (case history state of
        [] \<Rightarrow> Inr state
      | lastAction # rest \<Rightarrow>
          (case h_type lastAction of
             ADD \<Rightarrow>
               (case h_data lastAction of
                  None \<Rightarrow> Inl TypeError
                | Some t \<Rightarrow> reducer state (DELETE_TRANSACTION (tx_id t)))
           | DELETE \<Rightarrow> reducer state (ADD_TRANSACTION (h_data lastAction))))"

section \<open>The filter of the transaction list\<close>

text \<open>The comparison \<open>a <= b\<close> of two numbers: false whenever one is NaN.\<close>

fun js_le :: "jsnum \<Rightarrow> jsnum \<Rightarrow> bool" where
  "js_le NaN b = False"
| "js_le a NaN = False"
| "js_le NegInf b = True"
| "js_le a PosInf = True"
| "js_le (JNum a) (JNum b) = (a \<le> b)"
| "js_le a b = False"

definition js_ge :: "jsnum \<Rightarrow> jsnum \<Rightarrow> bool" where
  "js_ge a b = js_le b a"

text \<open>
  \<open>!v\<close> for a property that holds a number or is absent: \<open>undefined\<close>, zero and NaN
  are falsy, every other number is truthy.
\<close>

fun js_not :: "jsnum option \<Rightarrow> bool" where
  "js_not None = True"
| "js_not (Some (JNum x)) = (x = 0)"
| "js_not (Some NaN) = True"
| "js_not (Some PosInf) = False"
| "js_not (Some NegInf) = False"

text \<open>The number a comparison sees: \<open>undefined\<close> converts to NaN.\<close>

fun to_number :: "jsnum option \<Rightarrow> jsnum" where
  "to_number None = NaN"
| "to_number (Some n) = n"

text \<open>
  \<^verbatim>\<open>const matchesMin = !filters.minPrice || t.amount >= filters.minPrice;\<close>
  \<^verbatim>\<open>const matchesMax = !filters.maxPrice || t.amount <= filters.maxPrice;\<close>
\<close>

definition matchesMin :: "filter_state \<Rightarrow> transaction \<Rightarrow> bool" where
  "matchesMin fs t = (js_not (minPrice fs) \<or> js_ge (amount t) (to_number (minPrice fs)))"

definition matchesMax :: "filter_state \<Rightarrow> transaction \<Rightarrow> bool" where
  "matchesMax fs t = (js_not (maxPrice fs) \<or> js_le (amount t) (to_number (maxPrice fs)))"

text \<open>\<open>String.prototype.includes\<close>: the argument occurs as a substring.\<close>

fun js_includes :: "string \<Rightarrow> string \<Rightarrow> bool" where
  "js_includes [] sub = (sub = [])"
| "js_includes (c # cs) sub = (take (length sub) (c # cs) = sub \<or> js_includes cs sub)"

text \<open>
  What the callback takes from the environment: the case mapping of strings
  (\<open>toLowerCase\<close>) and the four tests of a transaction's date against the clock
  (\<open>new Date()\<close>), each a function of the date string.
\<close>

record environment =
  toLowerCase :: "string \<Rightarrow> string"
  isToday :: "string \<Rightarrow> bool"
  inLastWeek :: "string \<Rightarrow> bool"
  inThisMonth :: "string \<Rightarrow> bool"
  inThisYear :: "string \<Rightarrow> bool"

definition matchesDate :: "environment \<Rightarrow> filter_state \<Rightarrow> transaction \<Rightarrow> bool" where
  "matchesDate env fs t =
     (if dateRange fs = ''today'' then isToday env (date t)
      else if dateRange fs = ''week'' then inLastWeek env (date t)
      else if dateRange fs = ''month'' then inThisMonth env (date t)
      else if dateRange fs = ''year'' then inThisYear env (date t)
      else True)"

text \<open>The callback of \<open>transactions.filter\<close> in \<open>renderTransactions\<close>.\<close>

definition matchesFilters :: "environment \<Rightarrow> filter_state \<Rightarrow> transaction \<Rightarrow> bool" where
  "matchesFilters env fs t =
     (let matchesSearch =
            js_includes (toLowerCase env (description t)) (toLowerCase env (search fs));
          matchesCategory = (f_category fs = ''all'' \<or> category t = f_category fs)
      in matchesSearch \<and> matchesCategory \<and> matchesDate env fs t \<and> matchesMin fs t \<and> matchesMax fs t)"

text \<open>\<open>filtered\<close>, the transactions \<open>renderTransactions\<close> shows.\<close>

definition filtered :: "environment \<Rightarrow> app_state \<Rightarrow> js_error + tx_value list" where
  "filtered env state = js_filter (matchesFilters env (filters state)) (transactions state)"

section \<open>The pie chart\<close>

text \<open>
  The chart's numbers are doubles. The model does not fix how doubles round: the values
  are of a type \<open>'d\<close>, and the operations \<open>renderPieChart\<close> uses on them are the fields of
  an \<open>arithmetic\<close>: the number a literal denotes (\<open>num\<close>), \<open>Math.PI\<close>, \<open>+\<close>, \<open>*\<close>,
  \<open>/\<close>, \<open>>\<close>, \<open>===\<close>, \<open>Math.cos\<close> and \<open>Math.sin\<close>. What is proved of \<open>renderPieChart\<close>
  holds for every arithmetic, so for the one of IEEE doubles.
\<close>

record 'd arithmetic =
  num :: "int \<Rightarrow> 'd"
  PI :: 'd
  f_add :: "'d \<Rightarrow> 'd \<Rightarrow> 'd"
  f_mul :: "'d \<Rightarrow> 'd \<Rightarrow> 'd"
  f_div :: "'d \<Rightarrow> 'd \<Rightarrow> 'd"
  f_gt :: "'d \<Rightarrow> 'd \<Rightarrow> bool"
  f_eq :: "'d \<Rightarrow> 'd \<Rightarrow> bool"
  f_cos :: "'d \<Rightarrow> 'd"
  f_sin :: "'d \<Rightarrow> 'd"

text \<open>An entry of the chart's data, \<^verbatim>\<open>{ label, value, color }\<close>.\<close>

record 'd slice =
  label :: string
  slice_value :: 'd
  color :: string

text \<open>
  One \<^verbatim>\<open><path>\<close> of the markup: the path data
  \<^verbatim>\<open>M centerX centerY L x1 y1 A radius radius 0 largeArcFlag 1 x2 y2 Z\<close>,
  the fill and the title \<^verbatim>\<open>label: value\<close>.
\<close>

record 'd wedge =
  x1 :: 'd
  y1 :: 'd
  x2 :: 'd
  y2 :: 'd
  largeArcFlag :: nat
  fill :: string
  title :: "string \<times> 'd"

text \<open>
  What \<open>renderPieChart\<close> writes to the container: the paragraph "No data to display", or
  the svg element with its paths (the inner circle and the text TOTAL are the same in
  every chart).
\<close>

datatype 'd chart_markup = NoData | Svg "'d wedge list"

definition width :: "'d arithmetic \<Rightarrow> 'd" where "width ar = num ar 200"
definition height :: "'d arithmetic \<Rightarrow> 'd" where "height ar = num ar 200"
definition radius :: "'d arithmetic \<Rightarrow> 'd" where "radius ar = num ar 80"
definition centerX :: "'d arithmetic \<Rightarrow> 'd" where "centerX ar = f_div ar (width ar) (num ar 2)"
definition centerY :: "'d arithmetic \<Rightarrow> 'd" where "centerY ar = f_div ar (height ar) (num ar 2)"

text \<open>\<^verbatim>\<open>data.reduce((acc, curr) => acc + curr.value, 0)\<close>\<close>

definition chart_total :: "'d arithmetic \<Rightarrow> 'd slice list \<Rightarrow> 'd" where
  "chart_total ar data = foldl (\<lambda>acc curr. f_add ar acc (slice_value curr)) (num ar 0) data"

text \<open>
  The body of \<open>data.forEach\<close>, with \<open>total\<close> (\<open>total'\<close> here) and
  \<open>cumulativeAngle\<close> as arguments: the paths appended to the markup from the entries
  that are left. \<^verbatim>\<open>(slice.value / total) * 2 * Math.PI\<close> associates to the left.
\<close>

fun wedges :: "'d arithmetic \<Rightarrow> 'd \<Rightarrow> 'd \<Rightarrow> 'd slice list \<Rightarrow> 'd wedge list" where
  "wedges ar total' cumulativeAngle [] = []"
| "wedges ar total' cumulativeAngle (s # rest) =
     (let sliceAngle = f_mul ar (f_mul ar (f_div ar (slice_value s) total') (num ar 2)) (PI ar)
      in \<lparr> x1 = f_add ar (centerX ar) (f_mul ar (radius ar) (f_cos ar cumulativeAngle)),
           y1 = f_add ar (centerY ar) (f_mul ar (radius ar) (f_sin ar cumulativeAngle)),
           x2 = f_add ar (centerX ar)
                  (f_mul ar (radius ar) (f_cos ar (f_add ar cumulativeAngle sliceAngle))),
           y2 = f_add ar (centerY ar)
                  (f_mul ar (radius ar) (f_sin ar (f_add ar cumulativeAngle sliceAngle))),
           largeArcFlag = (if f_gt ar sliceAngle (PI ar) then 1 else 0),
           fill = color s,
           title = (label s, slice_value s) \<rparr>
         # wedges ar total' (f_add ar cumulativeAngle sliceAngle) rest)"

text \<open>
  \<open>renderPieChart\<close>: the second argument says whether the container element exists;
  without it the function returns at once and writes nothing (\<open>None\<close>).
\<close>

definition renderPieChart :: "'d arithmetic \<Rightarrow> bool \<Rightarrow> 'd slice list \<Rightarrow> 'd chart_markup option" where
  "renderPieChart ar container data =
     (if \<not> container then None
      else let total' = chart_total ar data
           in if f_eq ar total' (num ar 0) then Some NoData
              else Some (Svg (wedges ar total' (num ar 0) data)))"

text \<open>
  An arithmetic to evaluate examples with: the operations of the real numbers, without
  rounding.
\<close>

definition exact_arithmetic :: "real arithmetic" where
  "exact_arithmetic =
     \<lparr> num = real_of_int, PI = pi, f_add = (+), f_mul = (*), f_div = (/),
       f_gt = (>), f_eq = (=), f_cos = cos, f_sin = sin \<rparr>"

section \<open>Example transactions\<close>

text \<open>
  Three transactions for the concrete evaluations below. \<open>coffee\<close> and \<open>lunch\<close> are
  different records with the same id.
\<close>

definition coffee :: transaction where
  "coffee = \<lparr> tx_id = ''a1'', description = ''Coffee'', amount = JNum 5,
      tx_type = ''expense'', category = ''food'', date = ''2024-01-15T10:00:00.000Z'' \<rparr>"

definition salary :: transaction where
  "salary = \<lparr> tx_id = ''b2'', description = ''Salary'', amount = JNum 100,
      tx_type = ''income'', category = ''salary'', date = ''2024-01-01T09:00:00.000Z'' \<rparr>"

definition lunch :: transaction where
  "lunch = \<lparr> tx_id = ''a1'', description = ''Lunch'', amount = JNum 25,
      tx_type = ''expense'', category = ''food'', date = ''2024-01-16T12:00:00.000Z'' \<rparr>"

section \<open>Properties of the reducers\<close>

subsection \<open>The persistence flag\<close>

lemma expenseReducer_persist:
  "expenseReducer s a = Inr s' \<Longrightarrow> persist s' = persist s"
  by (cases a) (auto split: sum.splits)

lemma expenseReducer_main_persist:
  "expenseReducer_main s a = Inr s' \<Longrightarrow> persist s' = persist s"
  by (cases a) (auto split: sum.splits)

text \<open>
  Claim C9. Whatever the action, recognised or not, a state returned by either reducer has
  the persistence flag of the state it was given; so has the store's state after the
  dispatch, also when the reducer throws. No action enables or disables persistence.
\<close>

theorem reducer_keeps_persist:
  "(\<forall>s'. expenseReducer s a = Inr s' \<longrightarrow> persist s' = persist s) \<and>
   (\<forall>s'. expenseReducer_main s a = Inr s' \<longrightarrow> persist s' = persist s) \<and>
   persist (dispatch expenseReducer s a) = persist s \<and>
   persist (dispatch expenseReducer_main s a) = persist s"
  using expenseReducer_persist expenseReducer_main_persist
  by (auto simp: dispatch_def split: sum.splits)

theorem reducer_keeps_persist_witness:
  "expenseReducer ((initialState None)\<lparr> persist := False \<rparr>) (SET_CURRENCY ''EUR'') =
     Inr ((initialState None)\<lparr> persist := False, currency := ''EUR'' \<rparr>) \<and>
   persist ((initialState None)\<lparr> persist := False, currency := ''EUR'' \<rparr>) = False \<and>
   persist (dispatch expenseReducer_main (initialState_main None) (DELETE_TRANSACTION ''a1'')) = True"
  using reducer_keeps_persist [of "(initialState None)\<lparr> persist := False \<rparr>" "SET_CURRENCY ''EUR''"]
    reducer_keeps_persist [of "initialState_main None" "DELETE_TRANSACTION ''a1''"]
  by (simp add: initialState_def initialState_main_def)

subsection \<open>The bound on the history\<close>

lemma reducer_history_le:
  "expenseReducer s a = Inr s' \<Longrightarrow> length (history s) \<le> 50 \<Longrightarrow> length (history s') \<le> 50"
  by (cases a) (auto split: sum.splits)

lemma reducer_main_history_le:
  "expenseReducer_main s a = Inr s' \<Longrightarrow> length (history s) \<le> 50 \<Longrightarrow> length (history s') \<le> 50"
  by (cases a) (auto split: sum.splits)

lemma dispatch_history_le:
  "length (history s) \<le> 50 \<Longrightarrow> length (history (dispatch expenseReducer s a)) \<le> 50"
  by (auto simp: dispatch_def split: sum.splits dest: reducer_history_le)

lemma dispatch_main_history_le:
  "length (history s) \<le> 50 \<Longrightarrow> length (history (dispatch expenseReducer_main s a)) \<le> 50"
  by (auto simp: dispatch_def split: sum.splits dest: reducer_main_history_le)

lemma dispatch_all_history_le:
  "length (history s) \<le> 50 \<Longrightarrow> length (history (dispatch_all expenseReducer s acts)) \<le> 50"
  unfolding dispatch_all_def
  by (induction acts arbitrary: s) (simp_all add: dispatch_history_le)

lemma dispatch_all_main_history_le:
  "length (history s) \<le> 50 \<Longrightarrow> length (history (dispatch_all expenseReducer_main s acts)) \<le> 50"
  unfolding dispatch_all_def
  by (induction acts arbitrary: s) (simp_all add: dispatch_main_history_le)

text \<open>
  Claim C5. A state whose history has at most 50 entries is taken by either reducer,
  under any action, to a state whose history has at most 50 entries; hence after any
  sequence of dispatches from the default initial state (of either script) the history
  has at most 50 entries.
\<close>

theorem history_never_exceeds_50:
  "(length (history s) \<le> 50 \<longrightarrow>
      (\<forall>s'. expenseReducer s a = Inr s' \<longrightarrow> length (history s') \<le> 50) \<and>
      (\<forall>s'. expenseReducer_main s a = Inr s' \<longrightarrow> length (history s') \<le> 50)) \<and>
   length (history (dispatch_all expenseReducer (initialState None) acts)) \<le> 50 \<and>
   length (history (dispatch_all expenseReducer_main (initialState_main None) acts)) \<le> 50"
proof -
  have "length (history (initialState None)) \<le> 50"
    by (simp add: initialState_def)
  moreover have "length (history (initialState_main None)) \<le> 50"
    by (simp add: initialState_main_def)
  ultimately show ?thesis
    using reducer_history_le reducer_main_history_le
      dispatch_all_history_le dispatch_all_main_history_le
    by blast
qed

theorem history_never_exceeds_50_witness:
  "length (history (initialState None)) \<le> 50 \<and>
   expenseReducer (initialState None) (ADD_TRANSACTION None) =
     Inr ((initialState None)\<lparr> transactions := [None],
            history := [\<lparr> h_type = ADD, h_data = None \<rparr>] \<rparr>) \<and>
   length (history ((initialState None)\<lparr> transactions := [None],
            history := [\<lparr> h_type = ADD, h_data = None \<rparr>] \<rparr>)) \<le> 50 \<and>
   length (history (dispatch_all expenseReducer (initialState None)
       (replicate 60 (ADD_TRANSACTION None)))) = 50"
  using history_never_exceeds_50 [of "initialState None" "ADD_TRANSACTION None"
      "replicate 60 (ADD_TRANSACTION None)"]
  by (simp add: initialState_def dispatch_all_def dispatch_def eval_nat_numeral)

subsection \<open>find and filter on a list without undefined entries\<close>

lemma js_filter_map_Some: "js_filter p (map Some us) = Inr (map Some (filter p us))"
  by (induction us) simp_all

lemma js_find_map_Some: "js_find p (map Some us) = Inr (find p us)"
  by (induction us) simp_all

lemma defined_list: "None \<notin> set ts \<Longrightarrow> map Some (map the ts) = ts"
  by (induction ts) auto

lemma reducers_agree:
  "(\<forall>c. a \<noteq> SET_CURRENCY c) \<Longrightarrow> expenseReducer_main s a = expenseReducer s a"
  by (cases a) simp_all

lemma delete_defined:
  assumes "None \<notin> set (transactions s)"
  shows "expenseReducer s (DELETE_TRANSACTION i) =
     Inr (s\<lparr> transactions := filter (\<lambda>x. map_option tx_id x \<noteq> Some i) (transactions s),
             history := take 50 (\<lparr> h_type = DELETE,
                 h_data = (case find (\<lambda>x. map_option tx_id x = Some i) (transactions s) of
                             None \<Rightarrow> None | Some x \<Rightarrow> x) \<rparr> # history s) \<rparr>)"
proof -
  define us where "us = map the (transactions s)"
  with assms have us: "transactions s = map Some us"
    using defined_list [of "transactions s"] by simp
  have f: "filter (\<lambda>x. map_option tx_id x \<noteq> Some i) (map Some us) = map Some (filter (\<lambda>t. tx_id t \<noteq> i) us)"
    by (induction us) simp_all
  have g: "(case find (\<lambda>x. map_option tx_id x = Some i) (map Some us) of None \<Rightarrow> None | Some x \<Rightarrow> x)
      = find (\<lambda>t. tx_id t = i) us"
    by (induction us) simp_all
  have "expenseReducer s (DELETE_TRANSACTION i) =
     Inr (s\<lparr> transactions := map Some (filter (\<lambda>t. tx_id t \<noteq> i) us),
             history := take 50 (\<lparr> h_type = DELETE, h_data = find (\<lambda>t. tx_id t = i) us \<rparr> # history s) \<rparr>)"
    by (simp add: us js_filter_map_Some js_find_map_Some)
  then show ?thesis
    by (simp only: us f g)
qed

subsection \<open>Deleting an id that is not in the list\<close>

text \<open>
  When no transaction has the id, \<open>find\<close> returns \<open>undefined\<close>, \<open>filter\<close> keeps the
  whole list, and the reducer still prepends an entry to the history, with \<open>undefined\<close>
  as its data.
\<close>

lemma delete_absent_id:
  assumes "None \<notin> set (transactions s)"
    and "\<forall>t. Some t \<in> set (transactions s) \<longrightarrow> tx_id t \<noteq> i"
  shows "expenseReducer s (DELETE_TRANSACTION i) =
     Inr (s\<lparr> history := take 50 (\<lparr> h_type = DELETE, h_data = None \<rparr> # history s) \<rparr>)"
proof -
  define us where "us = map the (transactions s)"
  with assms(1) have us: "transactions s = map Some us"
    using defined_list [of "transactions s"] by simp
  with assms(2) have "\<forall>u \<in> set us. tx_id u \<noteq> i" by auto
  then have "filter (\<lambda>t. tx_id t \<noteq> i) us = us" and "find (\<lambda>t. tx_id t = i) us = None"
    by (simp_all add: find_None_iff)
  then have "js_find (\<lambda>t. tx_id t = i) (transactions s) = Inr None"
    and "js_filter (\<lambda>t. tx_id t \<noteq> i) (transactions s) = Inr (transactions s)"
    by (simp_all add: us js_filter_map_Some js_find_map_Some)
  then show ?thesis by simp
qed

text \<open>
  Claim C1 says that DELETE_TRANSACTION with an id that matches no transaction leaves the
  transaction list and the history unchanged. Both reducers leave the list unchanged but
  record a history entry: from a state with the one transaction \<open>coffee\<close> (id \<open>a1\<close>) and
  an empty history, deleting the id \<open>zz\<close> gives a history of one DELETE entry whose data is
  \<open>undefined\<close>.
\<close>

theorem delete_of_missing_id_records_history:
  "expenseReducer ((initialState None)\<lparr> transactions := [Some coffee] \<rparr>) (DELETE_TRANSACTION ''zz'') =
     Inr ((initialState None)\<lparr> transactions := [Some coffee],
            history := [\<lparr> h_type = DELETE, h_data = None \<rparr>] \<rparr>) \<and>
   expenseReducer_main ((initialState_main None)\<lparr> transactions := [Some coffee] \<rparr>) (DELETE_TRANSACTION ''zz'') =
     Inr ((initialState_main None)\<lparr> transactions := [Some coffee],
            history := [\<lparr> h_type = DELETE, h_data = None \<rparr>] \<rparr>) \<and>
   history ((initialState None)\<lparr> transactions := [Some coffee] \<rparr>) = []"
  by (simp add: initialState_def initialState_main_def coffee_def)

text \<open>
  What that entry leads to: undo reads it and dispatches ADD_TRANSACTION with the payload
  \<open>undefined\<close>, which the reducer prepends to the transaction list; every later
  DELETE_TRANSACTION then throws when \<open>filter\<close> reads \<open>t.id\<close> of that element.
\<close>

lemma undo_of_missing_delete_breaks_the_list:
  "undoLastAction expenseReducer ((initialState None)\<lparr> transactions := [Some coffee],
            history := [\<lparr> h_type = DELETE, h_data = None \<rparr>] \<rparr>) =
     Inr ((initialState None)\<lparr> transactions := [None, Some coffee],
            history := [\<lparr> h_type = ADD, h_data = None \<rparr>, \<lparr> h_type = DELETE, h_data = None \<rparr>] \<rparr>) \<and>
   expenseReducer ((initialState None)\<lparr> transactions := [None, Some coffee],
            history := [\<lparr> h_type = ADD, h_data = None \<rparr>, \<lparr> h_type = DELETE, h_data = None \<rparr>] \<rparr>)
       (DELETE_TRANSACTION ''a1'') = Inl TypeError"
  by (simp add: initialState_def undoLastAction_def)

section \<open>Properties of the store's listeners\<close>

lemma indexOf_absent: "x \<notin> set xs \<Longrightarrow> indexOf xs x = - 1"
  by (induction xs) auto

lemma indexOf_present:
  "x \<in> set xs \<Longrightarrow> 0 \<le> indexOf xs x \<and> indexOf xs x < int (length xs) \<and>
     take (nat (indexOf xs x)) xs @ drop (Suc (nat (indexOf xs x))) xs = remove1 x xs"
proof (induction xs)
  case Nil
  then show ?case by simp
next
  case (Cons y ys)
  show ?case
  proof (cases "y = x")
    case True
    then show ?thesis by simp
  next
    case False
    with Cons have "x \<in> set ys" by simp
    from Cons.IH [OF this] False show ?thesis
      by (simp add: Let_def nat_add_distrib)
  qed
qed

lemma unsubscribe_present:
  "l \<in> set ls \<Longrightarrow> unsubscribe ls l = remove1 l ls"
  using indexOf_present [of l ls]
  by (simp add: unsubscribe_def splice_def Let_def min_def nat_add_distrib)

lemma unsubscribe_absent:
  "l \<notin> set ls \<Longrightarrow> unsubscribe ls l = butlast ls"
  by (cases ls rule: rev_cases) (simp_all add: unsubscribe_def splice_def Let_def indexOf_absent)

text \<open>
  Claim C2 says that the function \<open>subscribe\<close> returns removes exactly its listener and
  that a second call is a no-op. The first call does remove the listener (its first
  occurrence, \<open>unsubscribe_present\<close>). On a second call \<open>indexOf\<close> returns \<open>-1\<close> and
  \<open>splice(-1, 1)\<close> removes the last element of the array (\<open>unsubscribe_absent\<close>): with
  listeners 1 and 2 subscribed in that order, unsubscribing 2 twice removes 2 and then 1.
\<close>

theorem second_unsubscribe_removes_another_listener:
  "subscribe (subscribe [] (1::nat)) 2 = [1, 2] \<and>
   unsubscribe [1, 2::nat] 2 = [1] \<and>
   unsubscribe [1::nat] 2 = []"
  by (simp add: subscribe_def unsubscribe_def splice_def)

section \<open>Setting the currency\<close>

text \<open>
  The reducer of the store module replaces the currency and nothing else.
\<close>

lemma set_currency_store:
  "expenseReducer s (SET_CURRENCY c) = Inr (s\<lparr> currency := c \<rparr>) \<and>
   currency (s\<lparr> currency := c \<rparr>) = c \<and>
   transactions (s\<lparr> currency := c \<rparr>) = transactions s \<and>
   history (s\<lparr> currency := c \<rparr>) = history s \<and>
   theme (s\<lparr> currency := c \<rparr>) = theme s \<and>
   filters (s\<lparr> currency := c \<rparr>) = filters s \<and>
   persist (s\<lparr> currency := c \<rparr>) = persist s"
  by simp

lemma set_currency_main: "expenseReducer_main s (SET_CURRENCY c) = Inr s"
  by simp

text \<open>
  Claim C4 says that SET_CURRENCY replaces the currency, and only it, in the reducer of
  each of the two scripts. The reducer of \<open>js/main.js\<close> has no case for SET_CURRENCY: from
  the default state, whose currency is USD, SET_CURRENCY EUR returns the state unchanged.
\<close>

theorem set_currency_ignored_by_main:
  "expenseReducer_main (initialState_main None) (SET_CURRENCY ''EUR'') = Inr (initialState_main None) \<and>
   currency (initialState_main None) = ''USD''"
  by (simp add: initialState_main_def)

section \<open>Properties of undo\<close>

lemma undoLastAction_main:
  "undoLastAction expenseReducer_main s = undoLastAction expenseReducer s"
  by (simp add: undoLastAction_def reducers_agree split: list.splits history_kind.splits option.splits)

lemma reducer_history:
  "expenseReducer s a = Inr s' \<Longrightarrow> (\<exists>p. a = ADD_TRANSACTION p) \<or> (\<exists>i. a = DELETE_TRANSACTION i) \<Longrightarrow>
   \<exists>e. history s' = take 50 (e # history s)"
  by (cases a) (auto split: sum.splits)

lemma undo_history:
  assumes "history s \<noteq> []" and "undoLastAction expenseReducer s = Inr s'"
  shows "\<exists>e. history s' = e # take 49 (history s)"
proof (cases "history s")
  case Nil
  with assms show ?thesis by simp
next
  case (Cons lastAction rest)
  show ?thesis
  proof (cases "h_type lastAction")
    case ADD
    with Cons assms(2) obtain i where "expenseReducer s (DELETE_TRANSACTION i) = Inr s'"
      by (auto simp: undoLastAction_def simp del: expenseReducer.simps split: option.splits)
    then obtain e where "history s' = take 50 (e # history s)"
      using reducer_history by blast
    then show ?thesis by simp
  next
    case DELETE
    with Cons assms(2) have "expenseReducer s (ADD_TRANSACTION (h_data lastAction)) = Inr s'"
      by (simp add: undoLastAction_def del: expenseReducer.simps)
    then obtain e where "history s' = take 50 (e # history s)"
      using reducer_history by blast
    then show ?thesis by simp
  qed
qed

lemma undo_returns:
  assumes "history s \<noteq> []" and "None \<notin> set (transactions s)" and "h_data (hd (history s)) \<noteq> None"
  shows "\<exists>s'. undoLastAction expenseReducer s = Inr s'"
  using assms delete_defined [OF assms(2)]
  by (auto simp: undoLastAction_def split: list.splits history_kind.splits option.splits)

lemma undo_result:
  assumes "history s = e # rest" and "undoLastAction expenseReducer s = Inr s'"
  shows "(h_type e = DELETE \<longrightarrow>
            s' = s\<lparr> transactions := h_data e # transactions s,
                    history := take 50 (\<lparr> h_type = ADD, h_data = h_data e \<rparr> # history s) \<rparr>) \<and>
         (h_type e = ADD \<longrightarrow>
            (\<exists>t d kept. h_data e = Some t \<and>
               js_find (\<lambda>u. tx_id u = tx_id t) (transactions s) = Inr d \<and>
               js_filter (\<lambda>u. tx_id u \<noteq> tx_id t) (transactions s) = Inr kept \<and>
               s' = s\<lparr> transactions := kept,
                       history := take 50 (\<lparr> h_type = DELETE, h_data = d \<rparr> # history s) \<rparr>))"
proof (cases "h_type e")
  case ADD
  with assms show ?thesis
    by (cases "h_data e") (auto simp: undoLastAction_def split: sum.splits)
next
  case DELETE
  with assms show ?thesis
    by (auto simp: undoLastAction_def)
qed

text \<open>
  Claim C3, as amended. Undo does not remove the entry it reads. For a state with a
  non-empty history, whenever undo's dispatch returns a state (in either script), the
  history of that state is a new entry on top of the first 49 entries of the old history:
  it has \<open>min (n + 1) 50\<close> entries, not \<open>n - 1\<close>. The new entry is the inverse of the entry
  read. For a DELETE entry it is an ADD entry with the same data, and that data is
  prepended to the transaction list. For an ADD entry, whose data is then a transaction
  \<open>t\<close>, it is a DELETE entry whose data is what \<open>find\<close> returns for the id of \<open>t\<close>, and
  the transaction list is what \<open>filter\<close> keeps of it for that id. The dispatch does return
  a state whenever neither the transaction list nor the top entry holds \<open>undefined\<close>.
\<close>

theorem undo_pushes_onto_history:
  assumes "history s \<noteq> []"
  shows "(\<forall>s'. undoLastAction expenseReducer s = Inr s' \<or> undoLastAction expenseReducer_main s = Inr s' \<longrightarrow>
            length (history s') = min (length (history s) + 1) 50 \<and>
            tl (history s') = take 49 (history s) \<and>
            h_type (hd (history s')) =
              (case h_type (hd (history s)) of ADD \<Rightarrow> DELETE | DELETE \<Rightarrow> ADD) \<and>
            (h_type (hd (history s)) = DELETE \<longrightarrow>
               h_data (hd (history s')) = h_data (hd (history s)) \<and>
               transactions s' = h_data (hd (history s)) # transactions s) \<and>
            (h_type (hd (history s)) = ADD \<longrightarrow>
               (\<exists>t. h_data (hd (history s)) = Some t \<and>
                  js_find (\<lambda>u. tx_id u = tx_id t) (transactions s) = Inr (h_data (hd (history s'))) \<and>
                  js_filter (\<lambda>u. tx_id u \<noteq> tx_id t) (transactions s) = Inr (transactions s')))) \<and>
         (None \<notin> set (transactions s) \<and> h_data (hd (history s)) \<noteq> None \<longrightarrow>
            (\<exists>s'. undoLastAction expenseReducer s = Inr s') \<and>
            (\<exists>s'. undoLastAction expenseReducer_main s = Inr s'))"
proof (intro conjI allI impI)
  fix s'
  assume "undoLastAction expenseReducer s = Inr s' \<or> undoLastAction expenseReducer_main s = Inr s'"
  then have u: "undoLastAction expenseReducer s = Inr s'"
    by (simp add: undoLastAction_main)
  from assms obtain e rest where h: "history s = e # rest"
    by (cases "history s") auto
  note res = undo_result [OF h u]
  show "length (history s') = min (length (history s) + 1) 50"
    using res by (cases "h_type e") auto
  show "tl (history s') = take 49 (history s)"
    using res by (cases "h_type e") auto
  show "h_type (hd (history s')) = (case h_type (hd (history s)) of ADD \<Rightarrow> DELETE | DELETE \<Rightarrow> ADD)"
    using res h by (cases "h_type e") auto
  show "h_data (hd (history s')) = h_data (hd (history s))" if "h_type (hd (history s)) = DELETE"
    using res h that by simp
  show "transactions s' = h_data (hd (history s)) # transactions s" if "h_type (hd (history s)) = DELETE"
    using res h that by simp
  show "\<exists>t. h_data (hd (history s)) = Some t \<and>
          js_find (\<lambda>u. tx_id u = tx_id t) (transactions s) = Inr (h_data (hd (history s'))) \<and>
          js_filter (\<lambda>u. tx_id u \<noteq> tx_id t) (transactions s) = Inr (transactions s')"
    if "h_type (hd (history s)) = ADD"
    using res h that by auto
next
  assume a: "None \<notin> set (transactions s) \<and> h_data (hd (history s)) \<noteq> None"
  with assms show "\<exists>s'. undoLastAction expenseReducer s = Inr s'"
    by (simp add: undo_returns)
  with a show "\<exists>s'. undoLastAction expenseReducer_main s = Inr s'"
    by (simp add: undoLastAction_main)
qed

theorem undo_pushes_onto_history_witness:
  "history ((initialState None)\<lparr> transactions := [Some coffee],
        history := [\<lparr> h_type = ADD, h_data = Some coffee \<rparr>] \<rparr>) \<noteq> [] \<and>
   undoLastAction expenseReducer ((initialState None)\<lparr> transactions := [Some coffee],
        history := [\<lparr> h_type = ADD, h_data = Some coffee \<rparr>] \<rparr>) =
     Inr ((initialState None)\<lparr> transactions := [],
        history := [\<lparr> h_type = DELETE, h_data = Some coffee \<rparr>,
                    \<lparr> h_type = ADD, h_data = Some coffee \<rparr>] \<rparr>) \<and>
   length (history ((initialState None)\<lparr> transactions := [],
        history := [\<lparr> h_type = DELETE, h_data = Some coffee \<rparr>,
                    \<lparr> h_type = ADD, h_data = Some coffee \<rparr>] \<rparr>)) = 2 \<and>
   hd (history ((initialState None)\<lparr> transactions := [],
        history := [\<lparr> h_type = DELETE, h_data = Some coffee \<rparr>,
                    \<lparr> h_type = ADD, h_data = Some coffee \<rparr>] \<rparr>)) =
     \<lparr> h_type = DELETE, h_data = Some coffee \<rparr>"
  using undo_pushes_onto_history [of "(initialState None)\<lparr> transactions := [Some coffee],
        history := [\<lparr> h_type = ADD, h_data = Some coffee \<rparr>] \<rparr>"]
  by (simp add: initialState_def undoLastAction_def)

text \<open>
  Claim C3 as stated (after undo the history has one entry fewer) fails: with the one
  transaction \<open>coffee\<close> and the one entry for its ADD, undo deletes \<open>coffee\<close> and the
  history has two entries, not zero.
\<close>

theorem undo_keeps_the_entry_counterexample:
  "history ((initialState None)\<lparr> transactions := [Some coffee],
        history := [\<lparr> h_type = ADD, h_data = Some coffee \<rparr>] \<rparr>) \<noteq> [] \<and>
   undoLastAction expenseReducer ((initialState None)\<lparr> transactions := [Some coffee],
        history := [\<lparr> h_type = ADD, h_data = Some coffee \<rparr>] \<rparr>) =
     Inr ((initialState None)\<lparr> transactions := [],
        history := [\<lparr> h_type = DELETE, h_data = Some coffee \<rparr>,
                    \<lparr> h_type = ADD, h_data = Some coffee \<rparr>] \<rparr>) \<and>
   length (history ((initialState None)\<lparr> transactions := [],
        history := [\<lparr> h_type = DELETE, h_data = Some coffee \<rparr>,
                    \<lparr> h_type = ADD, h_data = Some coffee \<rparr>] \<rparr>)) \<noteq>
   length (history ((initialState None)\<lparr> transactions := [Some coffee],
        history := [\<lparr> h_type = ADD, h_data = Some coffee \<rparr>] \<rparr>)) - 1"
  by (simp add: initialState_def undoLastAction_def)

lemma find_first_match:
  assumes "x \<in> set xs" and "P x"
  shows "\<exists>y. find P xs = Some y \<and> y \<in> set xs \<and> P y"
  using assms by (induction xs) auto

text \<open>
  Claim C6, as amended. In a state whose list holds transaction records only and has a
  transaction with identifier \<open>i\<close>, DELETE_TRANSACTION \<open>i\<close> followed by undo returns (in
  either script) a state whose list is the first transaction with identifier \<open>i\<close>, the
  one \<open>find\<close> returns, followed by the transactions with other identifiers. When \<open>t\<close> is
  the only transaction with identifier \<open>i\<close>, the restored record is \<open>t\<close>.
\<close>

theorem delete_then_undo_restores_first_match:
  assumes "None \<notin> set (transactions s)"
    and "Some t \<in> set (transactions s)"
    and "tx_id t = i"
    and "R = expenseReducer \<or> R = expenseReducer_main"
  shows "\<exists>t0 s1 s2.
           js_find (\<lambda>u. tx_id u = i) (transactions s) = Inr (Some t0) \<and>
           R s (DELETE_TRANSACTION i) = Inr s1 \<and>
           undoLastAction R s1 = Inr s2 \<and>
           transactions s2 =
             Some t0 # filter (\<lambda>x. map_option tx_id x \<noteq> Some i) (transactions s) \<and>
           ((\<forall>u. Some u \<in> set (transactions s) \<and> tx_id u = i \<longrightarrow> u = t) \<longrightarrow> t0 = t)"
proof -
  define us where "us = map the (transactions s)"
  with assms(1) have us: "transactions s = map Some us"
    using defined_list [of "transactions s"] by simp
  with assms(2) have "t \<in> set us" by auto
  with assms(3) obtain t0 where t0: "find (\<lambda>u. tx_id u = i) us = Some t0"
    and t0_in: "t0 \<in> set us" and t0_id: "tx_id t0 = i"
    using find_first_match [of t us "\<lambda>u. tx_id u = i"] by blast
  from t0_in have t0_in': "Some t0 \<in> set (transactions s)"
    by (simp add: us)
  define s1 where "s1 = s\<lparr> transactions := filter (\<lambda>x. map_option tx_id x \<noteq> Some i) (transactions s),
      history := take 50 (\<lparr> h_type = DELETE, h_data = Some t0 \<rparr> # history s) \<rparr>"
  define s2 where "s2 = s1\<lparr> transactions := Some t0 # transactions s1,
      history := take 50 (\<lparr> h_type = ADD, h_data = Some t0 \<rparr> # history s1) \<rparr>"
  have f: "js_find (\<lambda>u. tx_id u = i) (transactions s) = Inr (Some t0)"
    by (simp add: us js_find_map_Some t0)
  have "js_filter (\<lambda>u. tx_id u \<noteq> i) (transactions s) = Inr (map Some (filter (\<lambda>u. tx_id u \<noteq> i) us))"
    by (simp add: us js_filter_map_Some)
  moreover have "map Some (filter (\<lambda>u. tx_id u \<noteq> i) us) =
      filter (\<lambda>x. map_option tx_id x \<noteq> Some i) (transactions s)"
    unfolding us by (induction us) simp_all
  ultimately have k: "js_filter (\<lambda>u. tx_id u \<noteq> i) (transactions s) =
      Inr (filter (\<lambda>x. map_option tx_id x \<noteq> Some i) (transactions s))"
    by simp
  have d: "expenseReducer s (DELETE_TRANSACTION i) = Inr s1"
    by (simp only: expenseReducer.simps f k s1_def sum.case)
  have u: "undoLastAction expenseReducer s1 = Inr s2"
    by (simp add: undoLastAction_def s1_def s2_def)
  have tr: "transactions s2 = Some t0 # filter (\<lambda>x. map_option tx_id x \<noteq> Some i) (transactions s)"
    by (simp add: s2_def s1_def)
  from assms(4) d have dR: "R s (DELETE_TRANSACTION i) = Inr s1"
    by (auto simp only: reducers_agree action.distinct simp_thms)
  from assms(4) u have uR: "undoLastAction R s1 = Inr s2"
    by (auto simp only: undoLastAction_main)
  have uniq: "(\<forall>u. Some u \<in> set (transactions s) \<and> tx_id u = i \<longrightarrow> u = t) \<longrightarrow> t0 = t"
    using t0_in' t0_id by blast
  show ?thesis
  proof (intro exI conjI)
    show "js_find (\<lambda>u. tx_id u = i) (transactions s) = Inr (Some t0)" by (fact f)
    show "R s (DELETE_TRANSACTION i) = Inr s1" by (fact dR)
    show "undoLastAction R s1 = Inr s2" by (fact uR)
    show "transactions s2 = Some t0 # filter (\<lambda>x. map_option tx_id x \<noteq> Some i) (transactions s)"
      by (fact tr)
    show "(\<forall>u. Some u \<in> set (transactions s) \<and> tx_id u = i \<longrightarrow> u = t) \<longrightarrow> t0 = t"
      by (fact uniq)
  qed
qed

theorem delete_then_undo_restores_first_match_witness:
  "expenseReducer ((initialState None)\<lparr> transactions := [Some salary, Some coffee] \<rparr>)
       (DELETE_TRANSACTION ''a1'') =
     Inr ((initialState None)\<lparr> transactions := [Some salary],
            history := [\<lparr> h_type = DELETE, h_data = Some coffee \<rparr>] \<rparr>) \<and>
   undoLastAction expenseReducer ((initialState None)\<lparr> transactions := [Some salary],
            history := [\<lparr> h_type = DELETE, h_data = Some coffee \<rparr>] \<rparr>) =
     Inr ((initialState None)\<lparr> transactions := [Some coffee, Some salary],
            history := [\<lparr> h_type = ADD, h_data = Some coffee \<rparr>,
                        \<lparr> h_type = DELETE, h_data = Some coffee \<rparr>] \<rparr>)"
  using delete_then_undo_restores_first_match
    [of "(initialState None)\<lparr> transactions := [Some salary, Some coffee] \<rparr>" coffee "''a1''" expenseReducer]
  by (simp add: initialState_def undoLastAction_def coffee_def salary_def)

text \<open>
  Claim C6 as stated (the list again contains the transaction with that identifier) fails
  for a transaction that shares its identifier with an earlier one: \<open>coffee\<close> and \<open>lunch\<close>
  both have the id \<open>a1\<close>; the delete removes both and records \<open>coffee\<close>, undo adds
  \<open>coffee\<close> back, and \<open>lunch\<close> is not in the list.
\<close>

theorem delete_then_undo_counterexample:
  "Some lunch \<in> set (transactions ((initialState None)\<lparr> transactions := [Some coffee, Some lunch] \<rparr>)) \<and>
   tx_id lunch = ''a1'' \<and>
   expenseReducer ((initialState None)\<lparr> transactions := [Some coffee, Some lunch] \<rparr>)
       (DELETE_TRANSACTION ''a1'') =
     Inr ((initialState None)\<lparr> transactions := [],
            history := [\<lparr> h_type = DELETE, h_data = Some coffee \<rparr>] \<rparr>) \<and>
   undoLastAction expenseReducer ((initialState None)\<lparr> transactions := [],
            history := [\<lparr> h_type = DELETE, h_data = Some coffee \<rparr>] \<rparr>) =
     Inr ((initialState None)\<lparr> transactions := [Some coffee],
            history := [\<lparr> h_type = ADD, h_data = Some coffee \<rparr>,
                        \<lparr> h_type = DELETE, h_data = Some coffee \<rparr>] \<rparr>) \<and>
   Some lunch \<notin> set (transactions ((initialState None)\<lparr> transactions := [Some coffee],
            history := [\<lparr> h_type = ADD, h_data = Some coffee \<rparr>,
                        \<lparr> h_type = DELETE, h_data = Some coffee \<rparr>] \<rparr>))"
  by (simp add: initialState_def undoLastAction_def coffee_def lunch_def)

section \<open>Identifiers are not checked\<close>

text \<open>
  Claim C10, as amended. ADD_TRANSACTION does not check the identifier. In every state
  that has a transaction \<open>t\<close> with identifier \<open>i\<close>, adding a payload \<open>p\<close> with the same
  identifier returns (in either script) a state whose list is \<open>p\<close> followed by the old
  list, so at least two of its entries have the identifier \<open>i\<close>. When the list holds
  transaction records only, one DELETE_TRANSACTION \<open>i\<close> on that state returns a state that
  holds neither \<open>p\<close> nor \<open>t\<close>: its list is the transactions of the first state with other
  identifiers.
\<close>

theorem add_with_used_id_then_delete_removes_both:
  assumes "Some t \<in> set (transactions s)"
    and "tx_id t = i"
    and "tx_id p = i"
    and "R = expenseReducer \<or> R = expenseReducer_main"
  shows "\<exists>s1.
           R s (ADD_TRANSACTION (Some p)) = Inr s1 \<and>
           transactions s1 = Some p # transactions s \<and>
           2 \<le> length (filter (\<lambda>x. map_option tx_id x = Some i) (transactions s1)) \<and>
           (None \<notin> set (transactions s) \<longrightarrow>
              (\<exists>s2. R s1 (DELETE_TRANSACTION i) = Inr s2 \<and>
                 transactions s2 = filter (\<lambda>x. map_option tx_id x \<noteq> Some i) (transactions s) \<and>
                 Some p \<notin> set (transactions s2) \<and> Some t \<notin> set (transactions s2)))"
proof -
  define s1 where "s1 = s\<lparr> transactions := Some p # transactions s,
      history := take 50 (\<lparr> h_type = ADD, h_data = Some p \<rparr> # history s) \<rparr>"
  have a: "expenseReducer s (ADD_TRANSACTION (Some p)) = Inr s1"
    by (simp add: s1_def)
  have tr1: "transactions s1 = Some p # transactions s"
    by (simp add: s1_def)
  from assms(1,2) have "filter (\<lambda>x. map_option tx_id x = Some i) (transactions s) \<noteq> []"
    by (auto simp: filter_empty_conv)
  then have "1 \<le> length (filter (\<lambda>x. map_option tx_id x = Some i) (transactions s))"
    by (cases "filter (\<lambda>x. map_option tx_id x = Some i) (transactions s)") simp_all
  with assms(3) have two: "2 \<le> length (filter (\<lambda>x. map_option tx_id x = Some i) (transactions s1))"
    by (simp add: tr1)
  from assms(4) a have aR: "R s (ADD_TRANSACTION (Some p)) = Inr s1"
    by (auto simp only: reducers_agree action.distinct simp_thms)
  have del: "\<exists>s2. R s1 (DELETE_TRANSACTION i) = Inr s2 \<and>
                 transactions s2 = filter (\<lambda>x. map_option tx_id x \<noteq> Some i) (transactions s) \<and>
                 Some p \<notin> set (transactions s2) \<and> Some t \<notin> set (transactions s2)"
    if wf: "None \<notin> set (transactions s)"
  proof -
    have def1: "None \<notin> set (transactions s1)"
      using wf by (simp add: tr1)
    define s2 where "s2 = s1\<lparr> transactions := filter (\<lambda>x. map_option tx_id x \<noteq> Some i) (transactions s1),
             history := take 50 (\<lparr> h_type = DELETE,
                 h_data = (case find (\<lambda>x. map_option tx_id x = Some i) (transactions s1) of
                             None \<Rightarrow> None | Some x \<Rightarrow> x) \<rparr> # history s1) \<rparr>"
    have d: "expenseReducer s1 (DELETE_TRANSACTION i) = Inr s2"
      unfolding s2_def by (rule delete_defined [OF def1])
    have "transactions s2 = filter (\<lambda>x. map_option tx_id x \<noteq> Some i) (transactions s1)"
      by (simp add: s2_def)
    with assms(3) have tr2: "transactions s2 = filter (\<lambda>x. map_option tx_id x \<noteq> Some i) (transactions s)"
      by (simp add: tr1)
    from assms(3) have gone_p: "Some p \<notin> set (transactions s2)"
      by (simp add: tr2)
    from assms(2) have gone_t: "Some t \<notin> set (transactions s2)"
      by (simp add: tr2)
    from assms(4) d have dR: "R s1 (DELETE_TRANSACTION i) = Inr s2"
      by (auto simp only: reducers_agree action.distinct simp_thms)
    show ?thesis
    proof (intro exI conjI)
      show "R s1 (DELETE_TRANSACTION i) = Inr s2" by (fact dR)
      show "transactions s2 = filter (\<lambda>x. map_option tx_id x \<noteq> Some i) (transactions s)" by (fact tr2)
      show "Some p \<notin> set (transactions s2)" by (fact gone_p)
      show "Some t \<notin> set (transactions s2)" by (fact gone_t)
    qed
  qed
  show ?thesis
  proof (intro exI conjI)
    show "R s (ADD_TRANSACTION (Some p)) = Inr s1" by (fact aR)
    show "transactions s1 = Some p # transactions s" by (fact tr1)
    show "2 \<le> length (filter (\<lambda>x. map_option tx_id x = Some i) (transactions s1))" by (fact two)
    show "None \<notin> set (transactions s) \<longrightarrow>
            (\<exists>s2. R s1 (DELETE_TRANSACTION i) = Inr s2 \<and>
                 transactions s2 = filter (\<lambda>x. map_option tx_id x \<noteq> Some i) (transactions s) \<and>
                 Some p \<notin> set (transactions s2) \<and> Some t \<notin> set (transactions s2))"
      by (rule impI) (rule del)
  qed
qed

theorem add_with_used_id_then_delete_removes_both_witness:
  "expenseReducer ((initialState None)\<lparr> transactions := [Some salary, Some coffee] \<rparr>)
       (ADD_TRANSACTION (Some lunch)) =
     Inr ((initialState None)\<lparr> transactions := [Some lunch, Some salary, Some coffee],
            history := [\<lparr> h_type = ADD, h_data = Some lunch \<rparr>] \<rparr>) \<and>
   tx_id lunch = tx_id coffee \<and>
   expenseReducer ((initialState None)\<lparr> transactions := [Some lunch, Some salary, Some coffee],
            history := [\<lparr> h_type = ADD, h_data = Some lunch \<rparr>] \<rparr>) (DELETE_TRANSACTION ''a1'') =
     Inr ((initialState None)\<lparr> transactions := [Some salary],
            history := [\<lparr> h_type = DELETE, h_data = Some lunch \<rparr>,
                        \<lparr> h_type = ADD, h_data = Some lunch \<rparr>] \<rparr>)"
  using add_with_used_id_then_delete_removes_both
    [where s = "(initialState None)\<lparr> transactions := [Some salary, Some coffee] \<rparr>"
       and t = coffee and i = "''a1''" and p = lunch and R = expenseReducer]
  by (simp add: initialState_def coffee_def lunch_def salary_def)

text \<open>
  Claim C10 as stated (for every state) fails on a state whose list holds \<open>undefined\<close>,
  as the undo of a delete that found nothing leaves it: with the list
  \<open>[undefined, coffee]\<close>, adding \<open>lunch\<close>, which has the id of \<open>coffee\<close>, gives
  \<open>[lunch, undefined, coffee]\<close>; DELETE_TRANSACTION of that id then throws when \<open>filter\<close>
  reads the id of the \<open>undefined\<close> entry, and the store keeps all three entries.
\<close>

theorem delete_after_used_id_throws_counterexample:
  "Some coffee \<in> set (transactions ((initialState None)\<lparr> transactions := [None, Some coffee],
        history := [\<lparr> h_type = ADD, h_data = None \<rparr>, \<lparr> h_type = DELETE, h_data = None \<rparr>] \<rparr>)) \<and>
   tx_id lunch = tx_id coffee \<and>
   expenseReducer ((initialState None)\<lparr> transactions := [None, Some coffee],
        history := [\<lparr> h_type = ADD, h_data = None \<rparr>, \<lparr> h_type = DELETE, h_data = None \<rparr>] \<rparr>)
       (ADD_TRANSACTION (Some lunch)) =
     Inr ((initialState None)\<lparr> transactions := [Some lunch, None, Some coffee],
        history := [\<lparr> h_type = ADD, h_data = Some lunch \<rparr>,
                    \<lparr> h_type = ADD, h_data = None \<rparr>, \<lparr> h_type = DELETE, h_data = None \<rparr>] \<rparr>) \<and>
   expenseReducer ((initialState None)\<lparr> transactions := [Some lunch, None, Some coffee],
        history := [\<lparr> h_type = ADD, h_data = Some lunch \<rparr>,
                    \<lparr> h_type = ADD, h_data = None \<rparr>, \<lparr> h_type = DELETE, h_data = None \<rparr>] \<rparr>)
       (DELETE_TRANSACTION (tx_id coffee)) = Inl TypeError \<and>
   transactions (dispatch expenseReducer
       ((initialState None)\<lparr> transactions := [Some lunch, None, Some coffee],
          history := [\<lparr> h_type = ADD, h_data = Some lunch \<rparr>,
                      \<lparr> h_type = ADD, h_data = None \<rparr>, \<lparr> h_type = DELETE, h_data = None \<rparr>] \<rparr>)
       (DELETE_TRANSACTION (tx_id coffee))) = [Some lunch, None, Some coffee]"
  by (simp add: initialState_def dispatch_def coffee_def lunch_def)

section \<open>Properties of the price filter\<close>

lemma js_not_iff: "js_not v \<longleftrightarrow> v = None \<or> v = Some (JNum 0) \<or> v = Some NaN"
  by (cases v rule: js_not.cases) simp_all

text \<open>
  Claim C7, as amended. A transaction passes the minimum-price clause exactly when
  \<open>minPrice\<close> is falsy (unset, zero or NaN) or its amount is at least \<open>minPrice\<close>; it
  passes the maximum-price clause exactly when \<open>maxPrice\<close> is falsy (unset, zero or NaN)
  or its amount is at most \<open>maxPrice\<close> (so an infinite \<open>maxPrice\<close> is compared like any
  other number). With \<open>minPrice = 10\<close> and \<open>maxPrice = 50\<close>, an amount of 5 fails the
  minimum clause and is excluded, an amount of 25 passes both clauses and is included
  exactly when the search, category and date clauses hold, and an amount of 100 fails the
  maximum clause and is excluded.
\<close>

theorem price_clauses:
  "(matchesMin fs t \<longleftrightarrow>
      minPrice fs = None \<or> minPrice fs = Some (JNum 0) \<or> minPrice fs = Some NaN \<or>
      (\<exists>m. minPrice fs = Some m \<and> js_ge (amount t) m)) \<and>
   (matchesMax fs t \<longleftrightarrow>
      maxPrice fs = None \<or> maxPrice fs = Some (JNum 0) \<or> maxPrice fs = Some NaN \<or>
      (\<exists>m. maxPrice fs = Some m \<and> js_le (amount t) m)) \<and>
   (minPrice fs = Some (JNum 10) \<and> maxPrice fs = Some (JNum 50) \<longrightarrow>
      (amount t = JNum 5 \<longrightarrow> \<not> matchesMin fs t \<and> \<not> matchesFilters env fs t) \<and>
      (amount t = JNum 25 \<longrightarrow> matchesMin fs t \<and> matchesMax fs t \<and>
         (matchesFilters env fs t \<longleftrightarrow>
            js_includes (toLowerCase env (description t)) (toLowerCase env (search fs)) \<and>
            (f_category fs = ''all'' \<or> category t = f_category fs) \<and>
            matchesDate env fs t)) \<and>
      (amount t = JNum 100 \<longrightarrow> \<not> matchesMax fs t \<and> \<not> matchesFilters env fs t))"
proof (intro conjI)
  show "matchesMin fs t \<longleftrightarrow>
      minPrice fs = None \<or> minPrice fs = Some (JNum 0) \<or> minPrice fs = Some NaN \<or>
      (\<exists>m. minPrice fs = Some m \<and> js_ge (amount t) m)"
    by (cases "minPrice fs") (auto simp: matchesMin_def js_not_iff js_ge_def)
  show "matchesMax fs t \<longleftrightarrow>
      maxPrice fs = None \<or> maxPrice fs = Some (JNum 0) \<or> maxPrice fs = Some NaN \<or>
      (\<exists>m. maxPrice fs = Some m \<and> js_le (amount t) m)"
    by (cases "maxPrice fs") (auto simp: matchesMax_def js_not_iff)
  show "minPrice fs = Some (JNum 10) \<and> maxPrice fs = Some (JNum 50) \<longrightarrow>
      (amount t = JNum 5 \<longrightarrow> \<not> matchesMin fs t \<and> \<not> matchesFilters env fs t) \<and>
      (amount t = JNum 25 \<longrightarrow> matchesMin fs t \<and> matchesMax fs t \<and>
         (matchesFilters env fs t \<longleftrightarrow>
            js_includes (toLowerCase env (description t)) (toLowerCase env (search fs)) \<and>
            (f_category fs = ''all'' \<or> category t = f_category fs) \<and>
            matchesDate env fs t)) \<and>
      (amount t = JNum 100 \<longrightarrow> \<not> matchesMax fs t \<and> \<not> matchesFilters env fs t)"
    by (simp add: matchesFilters_def matchesMin_def matchesMax_def js_ge_def)
qed

theorem price_clauses_witness:
  "\<not> matchesFilters \<lparr> toLowerCase = (\<lambda>s. s), isToday = (\<lambda>d. True), inLastWeek = (\<lambda>d. True),
          inThisMonth = (\<lambda>d. True), inThisYear = (\<lambda>d. True) \<rparr>
       ((filters (initialState_main None))\<lparr> minPrice := Some (JNum 10), maxPrice := Some (JNum 50) \<rparr>)
       coffee \<and>
   matchesFilters \<lparr> toLowerCase = (\<lambda>s. s), isToday = (\<lambda>d. True), inLastWeek = (\<lambda>d. True),
          inThisMonth = (\<lambda>d. True), inThisYear = (\<lambda>d. True) \<rparr>
       ((filters (initialState_main None))\<lparr> minPrice := Some (JNum 10), maxPrice := Some (JNum 50) \<rparr>)
       lunch \<and>
   \<not> matchesFilters \<lparr> toLowerCase = (\<lambda>s. s), isToday = (\<lambda>d. True), inLastWeek = (\<lambda>d. True),
          inThisMonth = (\<lambda>d. True), inThisYear = (\<lambda>d. True) \<rparr>
       ((filters (initialState_main None))\<lparr> minPrice := Some (JNum 10), maxPrice := Some (JNum 50) \<rparr>)
       salary \<and>
   matchesMax ((filters (initialState_main None))\<lparr> maxPrice := Some PosInf \<rparr>) salary"
  using price_clauses [of "(filters (initialState_main None))\<lparr> minPrice := Some (JNum 10), maxPrice := Some (JNum 50) \<rparr>" coffee
      "\<lparr> toLowerCase = (\<lambda>s. s), isToday = (\<lambda>d. True), inLastWeek = (\<lambda>d. True),
          inThisMonth = (\<lambda>d. True), inThisYear = (\<lambda>d. True) \<rparr>"]
    price_clauses [of "(filters (initialState_main None))\<lparr> minPrice := Some (JNum 10), maxPrice := Some (JNum 50) \<rparr>" salary
      "\<lparr> toLowerCase = (\<lambda>s. s), isToday = (\<lambda>d. True), inLastWeek = (\<lambda>d. True),
          inThisMonth = (\<lambda>d. True), inThisYear = (\<lambda>d. True) \<rparr>"]
  by (simp add: initialState_main_def coffee_def lunch_def salary_def matchesFilters_def
      matchesDate_def matchesMin_def matchesMax_def js_ge_def)

text \<open>
  Claim C7 as stated (the maximum clause passes exactly when \<open>maxPrice\<close> is unset, not
  finite, or at least the amount) fails at \<open>maxPrice = 0\<close>: zero is set and finite and
  the amount 5 of \<open>coffee\<close> exceeds it, yet \<open>!filters.maxPrice\<close> is true and the clause
  passes.
\<close>

theorem max_price_zero_counterexample:
  "matchesMax ((filters (initialState_main None))\<lparr> maxPrice := Some (JNum 0) \<rparr>) coffee \<and>
   \<not> (maxPrice ((filters (initialState_main None))\<lparr> maxPrice := Some (JNum 0) \<rparr>) = None \<or>
      maxPrice ((filters (initialState_main None))\<lparr> maxPrice := Some (JNum 0) \<rparr>)
        \<in> {Some PosInf, Some NegInf, Some NaN} \<or>
      js_le (amount coffee) (JNum 0))"
  by (simp add: initialState_main_def coffee_def matchesMax_def)

section \<open>Properties of the pie chart\<close>

lemma length_wedges: "length (wedges ar T c data) = length data"
  by (induction data arbitrary: c) (simp_all add: Let_def)

lemma wedges_nth:
  "i < length data \<Longrightarrow>
   wedges ar T c data ! i =
     \<lparr> x1 = f_add ar (centerX ar) (f_mul ar (radius ar) (f_cos ar
               (foldl (f_add ar) c
                  (map (\<lambda>s. f_mul ar (f_mul ar (f_div ar (slice_value s) T) (num ar 2)) (PI ar))
                     (take i data))))),
       y1 = f_add ar (centerY ar) (f_mul ar (radius ar) (f_sin ar
               (foldl (f_add ar) c
                  (map (\<lambda>s. f_mul ar (f_mul ar (f_div ar (slice_value s) T) (num ar 2)) (PI ar))
                     (take i data))))),
       x2 = f_add ar (centerX ar) (f_mul ar (radius ar) (f_cos ar (f_add ar
               (foldl (f_add ar) c
                  (map (\<lambda>s. f_mul ar (f_mul ar (f_div ar (slice_value s) T) (num ar 2)) (PI ar))
                     (take i data)))
               (f_mul ar (f_mul ar (f_div ar (slice_value (data ! i)) T) (num ar 2)) (PI ar))))),
       y2 = f_add ar (centerY ar) (f_mul ar (radius ar) (f_sin ar (f_add ar
               (foldl (f_add ar) c
                  (map (\<lambda>s. f_mul ar (f_mul ar (f_div ar (slice_value s) T) (num ar 2)) (PI ar))
                     (take i data)))
               (f_mul ar (f_mul ar (f_div ar (slice_value (data ! i)) T) (num ar 2)) (PI ar))))),
       largeArcFlag =
         (if f_gt ar (f_mul ar (f_mul ar (f_div ar (slice_value (data ! i)) T) (num ar 2)) (PI ar))
               (PI ar)
          then 1 else 0),
       fill = color (data ! i),
       title = (label (data ! i), slice_value (data ! i)) \<rparr>"
proof (induction data arbitrary: c i)
  case Nil
  then show ?case by simp
next
  case (Cons s rest)
  show ?case
  proof (cases i)
    case 0
    then show ?thesis by (simp add: Let_def)
  next
    case (Suc k)
    with Cons.prems have "k < length rest" by simp
    from Cons.IH [OF this] Suc show ?thesis
      by (simp add: Let_def)
  qed
qed

text \<open>
  Claim C8. With the container present, in the arithmetic of the program's numbers
  (whatever \<open>ar\<close> is): when the total, the values added from the left starting at 0, is
  equal to 0, \<open>renderPieChart\<close> writes the "no data" paragraph. Otherwise it writes one
  path per entry, in the order of the input, with the entry's colour and title. The slice
  angle of an entry is \<open>(value / total) * 2 * PI\<close>; the path of entry \<open>i\<close> starts on
  the circle at the cumulative angle, the slice angles of the entries before it added from
  the left starting at 0, and ends at the cumulative angle plus its slice angle; its
  large-arc flag is 1 exactly when its slice angle is greater than \<open>PI\<close>, else 0.
\<close>

theorem renderPieChart_wedges:
  fixes ar :: "'d arithmetic" and data :: "'d slice list"
  defines "T \<equiv> chart_total ar data"
  defines "sliceAngle \<equiv> \<lambda>s. f_mul ar (f_mul ar (f_div ar (slice_value s) T) (num ar 2)) (PI ar)"
  defines "cumulativeAngle \<equiv> \<lambda>i. foldl (f_add ar) (num ar 0) (map sliceAngle (take i data))"
  shows
  "T = foldl (f_add ar) (num ar 0) (map slice_value data) \<and>
   (f_eq ar T (num ar 0) \<longrightarrow> renderPieChart ar True data = Some NoData) \<and>
   (\<not> f_eq ar T (num ar 0) \<longrightarrow>
      (\<exists>ws. renderPieChart ar True data = Some (Svg ws) \<and> length ws = length data \<and>
        (\<forall>i < length data.
           fill (ws ! i) = color (data ! i) \<and>
           title (ws ! i) = (label (data ! i), slice_value (data ! i)) \<and>
           largeArcFlag (ws ! i) = (if f_gt ar (sliceAngle (data ! i)) (PI ar) then 1 else 0) \<and>
           x1 (ws ! i) = f_add ar (centerX ar) (f_mul ar (radius ar) (f_cos ar (cumulativeAngle i))) \<and>
           y1 (ws ! i) = f_add ar (centerY ar) (f_mul ar (radius ar) (f_sin ar (cumulativeAngle i))) \<and>
           x2 (ws ! i) = f_add ar (centerX ar) (f_mul ar (radius ar)
                           (f_cos ar (f_add ar (cumulativeAngle i) (sliceAngle (data ! i))))) \<and>
           y2 (ws ! i) = f_add ar (centerY ar) (f_mul ar (radius ar)
                           (f_sin ar (f_add ar (cumulativeAngle i) (sliceAngle (data ! i))))))))"
proof (intro conjI impI)
  have "foldl (\<lambda>acc curr. f_add ar acc (slice_value curr)) a data =
        foldl (f_add ar) a (map slice_value data)" for a
    by (induction data arbitrary: a) simp_all
  then show "T = foldl (f_add ar) (num ar 0) (map slice_value data)"
    by (simp add: T_def chart_total_def)
next
  assume "f_eq ar T (num ar 0)"
  then show "renderPieChart ar True data = Some NoData"
    by (simp add: renderPieChart_def T_def)
next
  assume "\<not> f_eq ar T (num ar 0)"
  then have r: "renderPieChart ar True data = Some (Svg (wedges ar T (num ar 0) data))"
    by (simp add: renderPieChart_def T_def)
  show "\<exists>ws. renderPieChart ar True data = Some (Svg ws) \<and> length ws = length data \<and>
        (\<forall>i < length data.
           fill (ws ! i) = color (data ! i) \<and>
           title (ws ! i) = (label (data ! i), slice_value (data ! i)) \<and>
           largeArcFlag (ws ! i) = (if f_gt ar (sliceAngle (data ! i)) (PI ar) then 1 else 0) \<and>
           x1 (ws ! i) = f_add ar (centerX ar) (f_mul ar (radius ar) (f_cos ar (cumulativeAngle i))) \<and>
           y1 (ws ! i) = f_add ar (centerY ar) (f_mul ar (radius ar) (f_sin ar (cumulativeAngle i))) \<and>
           x2 (ws ! i) = f_add ar (centerX ar) (f_mul ar (radius ar)
                           (f_cos ar (f_add ar (cumulativeAngle i) (sliceAngle (data ! i))))) \<and>
           y2 (ws ! i) = f_add ar (centerY ar) (f_mul ar (radius ar)
                           (f_sin ar (f_add ar (cumulativeAngle i) (sliceAngle (data ! i))))))"
  proof (intro exI conjI allI impI)
    show "renderPieChart ar True data = Some (Svg (wedges ar T (num ar 0) data))" by (fact r)
    show "length (wedges ar T (num ar 0) data) = length data" by (rule length_wedges)
  qed (simp_all add: wedges_nth sliceAngle_def cumulativeAngle_def)
qed

text \<open>
  The witness evaluates the theorem in the exact arithmetic: the values 0 give the "no
  data" paragraph, and the values 1, 1, 2 (total 4) give three paths in that order with
  the flags 0, 0, 0. (On these values the flags are those of doubles too: 1/4 and 2/4 and
  their doubles are powers of two, and a double times a power of two does not round.)
\<close>

theorem renderPieChart_wedges_witness:
  "renderPieChart exact_arithmetic True
     [\<lparr> label = ''Food'', slice_value = 0, color = ''#fbbf24'' \<rparr>] = Some NoData \<and>
   \<not> f_eq exact_arithmetic (chart_total exact_arithmetic
     [\<lparr> label = ''Food'', slice_value = 1, color = ''#fbbf24'' \<rparr>,
      \<lparr> label = ''Rent'', slice_value = 1, color = ''#818cf8'' \<rparr>,
      \<lparr> label = ''Other'', slice_value = 2, color = ''#94a3b8'' \<rparr>]) (num exact_arithmetic 0) \<and>
   map (\<lambda>w. (largeArcFlag w, fill w, title w))
     (wedges exact_arithmetic 4 0
       [\<lparr> label = ''Food'', slice_value = 1, color = ''#fbbf24'' \<rparr>,
        \<lparr> label = ''Rent'', slice_value = 1, color = ''#818cf8'' \<rparr>,
        \<lparr> label = ''Other'', slice_value = 2, color = ''#94a3b8'' \<rparr>]) =
     [(0, ''#fbbf24'', (''Food'', 1)), (0, ''#818cf8'', (''Rent'', 1)), (0, ''#94a3b8'', (''Other'', 2))] \<and>
   renderPieChart exact_arithmetic True
     [\<lparr> label = ''Food'', slice_value = 1, color = ''#fbbf24'' \<rparr>,
      \<lparr> label = ''Rent'', slice_value = 1, color = ''#818cf8'' \<rparr>,
      \<lparr> label = ''Other'', slice_value = 2, color = ''#94a3b8'' \<rparr>] =
     Some (Svg (wedges exact_arithmetic 4 0
       [\<lparr> label = ''Food'', slice_value = 1, color = ''#fbbf24'' \<rparr>,
        \<lparr> label = ''Rent'', slice_value = 1, color = ''#818cf8'' \<rparr>,
        \<lparr> label = ''Other'', slice_value = 2, color = ''#94a3b8'' \<rparr>]))"
  using renderPieChart_wedges [of exact_arithmetic "[\<lparr> label = ''Food'', slice_value = 0, color = ''#fbbf24'' \<rparr>]"]
    renderPieChart_wedges [of exact_arithmetic "[\<lparr> label = ''Food'', slice_value = 1, color = ''#fbbf24'' \<rparr>,
      \<lparr> label = ''Rent'', slice_value = 1, color = ''#818cf8'' \<rparr>,
      \<lparr> label = ''Other'', slice_value = 2, color = ''#94a3b8'' \<rparr>]"]
  by (simp add: renderPieChart_def chart_total_def exact_arithmetic_def Let_def)

end
